theory Spec2Isabelle
  imports Complex_Main
begin

section \<open>Go values as seen through an empty interface\<close>

text \<open>
  \<^verbatim>\<open>transform/parse.go\<close> works on \<^verbatim>\<open>interface{}\<close> values and inspects them with
  package \<^verbatim>\<open>reflect\<close>. A value is modelled together with its dynamic type: the static
  element type of a slice, an array or a map is part of the value, because
  \<^verbatim>\<open>reflect.Value.Set\<close> and \<^verbatim>\<open>reflect.Value.SetMapIndex\<close> check assignability against
  it. \<open>VNil\<close> is the nil interface. \<open>VBool\<close>, \<open>VInt\<close>, \<open>VFloat64\<close> and \<open>VTime\<close> stand for
  the scalars that are not strings.

  A request value is a tree: the contents of a slice are kept inside the value, and
  every function that writes through \<^verbatim>\<open>reflect\<close> returns, next to its result, the
  contents that the caller's value has after the call. Two positions of a tree do not
  share a backing array. The code can also be handed a value in which one slice occurs
  at two positions, or in which two slices overlap; there a write through one position
  is seen through the other. Such a request is not a value of this type, and every
  statement below about slices is a statement about requests without such sharing.
\<close>

datatype gtype =
    TString | TBool | TInt | TFloat64 | TTime | TInterface
  | TSlice gtype | TArray nat gtype | TMap gtype gtype

datatype kind =
  KString | KBool | KInt | KFloat64 | KStruct | KInterface | KSlice | KArray | KMap

text \<open>
  A \<^verbatim>\<open>float64\<close>: a finite value is kept as the real number it denotes (both zeros are
  \<open>Finite 0\<close>). Only multiplication by a power of two is needed, which is exact unless
  it overflows.
\<close>

datatype float64 = Finite real | PosInf | NegInf | NaN

text \<open>A \<^verbatim>\<open>time.Time\<close>, as the instant it denotes (nanoseconds since the Unix epoch).\<close>

datatype time = Instant int

datatype val =
    VNil
  | VString string
  | VBool bool
  | VInt int
  | VFloat64 float64
  | VTime time
  | VSlice gtype "val list"
  | VArray gtype "val list"
  | VMap gtype gtype "(val \<times> val) list"

text \<open>
  Modelled from the spec: the error types \<^verbatim>\<open>ErrNotImplemented\<close> and
  \<^verbatim>\<open>ErrUnsupportedFormat\<close> are declared outside \<^verbatim>\<open>parse.go\<close>; the file builds them from
  two strings each (name and attribute; format and attribute). \<open>NumError\<close> and
  \<open>TimeParseError\<close> are the errors of \<^verbatim>\<open>strconv.ParseFloat\<close> and \<^verbatim>\<open>time.Parse\<close>.
\<close>

datatype error =
    ErrNotImplemented string string
  | ErrUnsupportedFormat string string
  | NumError string
  | TimeParseError string

text \<open>The run-time panics that \<^verbatim>\<open>parse.go\<close> can raise.\<close>

datatype panic =
    NilPointer         \<comment> \<open>\<^verbatim>\<open>reflect.TypeOf(nil).Kind()\<close>\<close>
  | TypeAssertion      \<comment> \<open>\<^verbatim>\<open>p.Value.(string)\<close> on a value that is not a string\<close>
  | IndexOutOfRange    \<comment> \<open>\<^verbatim>\<open>p.Args[0]\<close> on an empty slice\<close>
  | ReflectSet         \<comment> \<open>\<^verbatim>\<open>Value.Set\<close>: unaddressable target or unassignable value\<close>
  | ReflectSetMapIndex \<comment> \<open>\<^verbatim>\<open>Value.SetMapIndex\<close>: unassignable key or element\<close>

text \<open>
  What a call leaves in its two results \<^verbatim>\<open>(val interface{}, err error)\<close>:
  \<open>Ok v\<close> is \<^verbatim>\<open>(v, nil)\<close>, where \<open>v\<close> may be \<open>VNil\<close>; \<open>Err e\<close> is \<^verbatim>\<open>(nil, e)\<close>;
  \<open>Panic x\<close> is a call that does not return.
\<close>

datatype outcome = Ok val | Err error | Panic panic

record ParseParams =
  Attribute :: string
  Value :: val
  Name :: string
  Args :: "string list"

text \<open>
  The functions that \<^verbatim>\<open>parse.go\<close> calls and does not define. \<open>ParseFloat s\<close> is
  \<^verbatim>\<open>strconv.ParseFloat(s, 64)\<close> and \<open>time_Parse layout s\<close> is \<^verbatim>\<open>time.Parse(layout, s)\<close>.

  Modelled from the spec: \<^verbatim>\<open>formatName\<close> is declared outside \<^verbatim>\<open>parse.go\<close>; it applies the
  naming convention selected by its first argument to its second and produces a string,
  or nil (\<open>None\<close>) for a convention it does not know.

  \<open>upper_unicode\<close> and \<open>lower_unicode\<close> are the upper-case and the lower-case form of a
  string that is not ASCII text, as the Unicode case tables give them; the tables are
  no part of the repository.
\<close>

record externals =
  ParseFloat :: "string \<Rightarrow> error + float64"
  time_Parse :: "string \<Rightarrow> string \<Rightarrow> error + time"
  formatName :: "string \<Rightarrow> string \<Rightarrow> string option"
  upper_unicode :: "string \<Rightarrow> string"
  lower_unicode :: "string \<Rightarrow> string"

section \<open>Strings\<close>

text \<open>
  A Go string is a sequence of bytes. In ASCII text a letter \<^verbatim>\<open>a\<close>..\<^verbatim>\<open>z\<close> (97..122)
  becomes upper case by losing bit 5, a letter \<^verbatim>\<open>A\<close>..\<^verbatim>\<open>Z\<close> (65..90) becomes lower case
  by gaining it, and every other byte below 128 has no other case.
\<close>

definition ascii :: "string \<Rightarrow> bool" where
  "ascii s = list_all (\<lambda>c. (of_char c :: nat) < 128) s"

definition to_upper_char :: "char \<Rightarrow> char" where
  "to_upper_char c =
     (if 97 \<le> (of_char c :: nat) \<and> (of_char c :: nat) \<le> 122
      then (case c of Char b0 b1 b2 b3 b4 b5 b6 b7 \<Rightarrow> Char b0 b1 b2 b3 b4 False b6 b7)
      else c)"

definition to_lower_char :: "char \<Rightarrow> char" where
  "to_lower_char c =
     (if 65 \<le> (of_char c :: nat) \<and> (of_char c :: nat) \<le> 90
      then (case c of Char b0 b1 b2 b3 b4 b5 b6 b7 \<Rightarrow> Char b0 b1 b2 b3 b4 True b6 b7)
      else c)"

text \<open>
  \<^verbatim>\<open>strings.ToUpper\<close>, as far as \<^verbatim>\<open>parse.go\<close> uses it: the file only compares its result
  with ASCII words. The Go function maps the code points of the UTF-8 text. An ASCII
  letter goes to its upper-case letter. Two code points beyond ASCII have an ASCII
  upper-case form: U+0131 (the bytes 196, 177) goes to \<^verbatim>\<open>I\<close> and U+017F (the bytes 197,
  191) goes to \<^verbatim>\<open>S\<close>. Every other code point beyond ASCII, and every byte that does not
  belong to valid UTF-8, goes to bytes beyond ASCII; the model keeps such a byte as it
  is. The result then differs from Go's as a string, but its comparison with an ASCII
  word has the same answer as in Go, on every string.
\<close>

fun ToUpper :: "string \<Rightarrow> string" where
  "ToUpper (c # d # cs) =
     (if (of_char c :: nat) = 196 \<and> (of_char d :: nat) = 177 then CHR ''I'' # ToUpper cs
      else if (of_char c :: nat) = 197 \<and> (of_char d :: nat) = 191 then CHR ''S'' # ToUpper cs
      else to_upper_char c # ToUpper (d # cs))"
| "ToUpper [c] = [to_upper_char c]"
| "ToUpper [] = []"

text \<open>
  Modelled from the spec: \<^verbatim>\<open>upper\<close> and \<^verbatim>\<open>lower\<close> are declared outside \<^verbatim>\<open>parse.go\<close>;
  they convert a string to upper and to lower case with a locale-insensitive case
  mapping. On ASCII text that mapping is the one of the letters \<^verbatim>\<open>a\<close>..\<^verbatim>\<open>z\<close> and
  \<^verbatim>\<open>A\<close>..\<^verbatim>\<open>Z\<close>. On every other string it is the mapping of the Unicode case tables,
  \<open>upper_unicode\<close> and \<open>lower_unicode\<close>.
\<close>

definition upper :: "externals \<Rightarrow> string \<Rightarrow> string" where
  "upper L s = (if ascii s then map to_upper_char s else upper_unicode L s)"

definition lower :: "externals \<Rightarrow> string \<Rightarrow> string" where
  "lower L s = (if ascii s then map to_lower_char s else lower_unicode L s)"

section \<open>Package reflect\<close>

fun TypeOf :: "val \<Rightarrow> gtype option" where
  "TypeOf VNil = None"
| "TypeOf (VString s) = Some TString"
| "TypeOf (VBool b) = Some TBool"
| "TypeOf (VInt n) = Some TInt"
| "TypeOf (VFloat64 x) = Some TFloat64"
| "TypeOf (VTime t) = Some TTime"
| "TypeOf (VSlice t xs) = Some (TSlice t)"
| "TypeOf (VArray t xs) = Some (TArray (length xs) t)"
| "TypeOf (VMap kt et kvs) = Some (TMap kt et)"

fun Kind :: "gtype \<Rightarrow> kind" where
  "Kind TString = KString"
| "Kind TBool = KBool"
| "Kind TInt = KInt"
| "Kind TFloat64 = KFloat64"
| "Kind TTime = KStruct"
| "Kind TInterface = KInterface"
| "Kind (TSlice t) = KSlice"
| "Kind (TArray n t) = KArray"
| "Kind (TMap kt et) = KMap"

text \<open>
  A value can be stored where the static type is \<open>t\<close> when \<open>t\<close> is the empty interface
  or the value's own type.
\<close>

definition assignable :: "val \<Rightarrow> gtype \<Rightarrow> bool" where
  "assignable v t = (t = TInterface \<or> TypeOf v = Some t)"

fun elems :: "val \<Rightarrow> val list" where
  "elems (VSlice t xs) = xs"
| "elems (VArray t xs) = xs"
| "elems v = []"

definition Len :: "val \<Rightarrow> nat" where
  "Len s = length (elems s)"

definition Index :: "val \<Rightarrow> nat \<Rightarrow> val" where
  "Index s i = elems s ! i"

text \<open>
  \<open>store s i x\<close> is the sequence \<open>s\<close> with \<open>x\<close> in place of its element \<open>i\<close>.
\<close>

fun store :: "val \<Rightarrow> nat \<Rightarrow> val \<Rightarrow> val" where
  "store (VSlice t xs) i x = VSlice t (xs[i := x])"
| "store (VArray t xs) i x = VArray t (xs[i := x])"
| "store v i x = v"

text \<open>
  \<^verbatim>\<open>s.Index(i).Set(reflect.ValueOf(x))\<close>. An element of a slice is addressable, and the
  write succeeds when \<open>x\<close> is assignable to the element type. An element of an array
  that was taken out of an interface is not addressable: the write panics.
\<close>

fun SetIndex :: "val \<Rightarrow> nat \<Rightarrow> val \<Rightarrow> val option" where
  "SetIndex (VSlice t xs) i x = (if assignable x t then Some (VSlice t (xs[i := x])) else None)"
| "SetIndex v i x = None"

fun MakeMap :: "gtype \<Rightarrow> val" where
  "MakeMap (TMap kt et) = VMap kt et []"
| "MakeMap t = VNil"

text \<open>
  \<^verbatim>\<open>MapKeys\<close>: the keys, in the order in which this run of the program meets them. A
  key of a Go map is comparable, so it is never a slice or a map.
\<close>

fun MapKeys :: "val \<Rightarrow> val list" where
  "MapKeys (VMap kt et kvs) = map fst kvs"
| "MapKeys v = []"

text \<open>
  Equality of map keys is Go's \<^verbatim>\<open>==\<close>: a NaN is not equal to itself.
\<close>

definition key_eq :: "val \<Rightarrow> val \<Rightarrow> bool" where
  "key_eq a b = (a = b \<and> a \<noteq> VFloat64 NaN)"

fun assign :: "(val \<times> val) list \<Rightarrow> val \<Rightarrow> val \<Rightarrow> (val \<times> val) list" where
  "assign [] k e = [(k, e)]"
| "assign ((k', e') # kvs) k e =
     (if key_eq k' k then (k', e) # kvs else (k', e') # assign kvs k e)"

fun SetMapIndex :: "val \<Rightarrow> val \<Rightarrow> val \<Rightarrow> val option" where
  "SetMapIndex (VMap kt et kvs) k e =
     (if assignable k kt \<and> assignable e et then Some (VMap kt et (assign kvs k e)) else None)"
| "SetMapIndex v k e = None"

section \<open>The formatters\<close>

text \<open>
  \<^verbatim>\<open>size *= 1 << k\<close>: the product with \<open>2 ^ k\<close> is exact, or infinite when it is
  beyond the largest finite \<^verbatim>\<open>float64\<close>.
\<close>

definition max_float64 :: real where
  "max_float64 = 2 ^ 1024 - 2 ^ 971"

fun scale :: "float64 \<Rightarrow> nat \<Rightarrow> float64" where
  "scale (Finite r) k =
     (if \<bar>r\<bar> * 2 ^ k \<le> max_float64 then Finite (r * 2 ^ k)
      else if 0 < r then PosInf else NegInf)"
| "scale x k = x"

definition RFC3339 :: string where
  "RFC3339 = ''2006-01-02T15:04:05Z07:00''"

definition UnixDate :: string where
  "UnixDate = ''Mon Jan _2 15:04:05 MST 2006''"

definition pFormatSize :: "externals \<Rightarrow> ParseParams \<Rightarrow> outcome" where
  "pFormatSize L p =
     (case Value p of
        VString s \<Rightarrow>
          (case ParseFloat L s of
             Inl err \<Rightarrow> Err err
           | Inr sz \<Rightarrow>
               (case Args p of
                  [] \<Rightarrow> Panic IndexOutOfRange
                | a # _ \<Rightarrow>
                    if ToUpper a = ''B'' then Ok (VFloat64 (scale sz 0))
                    else if ToUpper a = ''KB'' then Ok (VFloat64 (scale sz 10))
                    else if ToUpper a = ''MB'' then Ok (VFloat64 (scale sz 20))
                    else if ToUpper a = ''GB'' then Ok (VFloat64 (scale sz 20))
                    else Ok VNil))
      | _ \<Rightarrow> Panic TypeAssertion)"

definition pFormatTime :: "externals \<Rightarrow> ParseParams \<Rightarrow> outcome" where
  "pFormatTime L p =
     (case Args p of
        [] \<Rightarrow> Panic IndexOutOfRange
      | a # _ \<Rightarrow>
          (case Value p of
             VString s \<Rightarrow>
               (case (if ToUpper a = ''ISO'' then time_Parse L RFC3339 s
                      else if ToUpper a = ''UNIX'' then time_Parse L UnixDate s
                      else time_Parse L ''Jan 02 2006 15 04'' s) of
                  Inl err \<Rightarrow> Err err
                | Inr t \<Rightarrow> Ok (VTime t))
           | _ \<Rightarrow> Panic TypeAssertion))"

definition pFormat :: "externals \<Rightarrow> ParseParams \<Rightarrow> outcome" where
  "pFormat L p =
     (case (if Attribute p = ''name'' then
              (case Value p of
                 VString s \<Rightarrow>
                   (case Args p of
                      [] \<Rightarrow> Panic IndexOutOfRange
                    | a # _ \<Rightarrow>
                        Ok (case formatName L a s of None \<Rightarrow> VNil | Some r \<Rightarrow> VString r))
               | _ \<Rightarrow> Panic TypeAssertion)
            else if Attribute p = ''size'' then pFormatSize L p
            else if Attribute p = ''time'' then pFormatTime L p
            else Ok VNil) of
        Panic x \<Rightarrow> Panic x
      | Err err \<Rightarrow> Err err
      | Ok v \<Rightarrow>
          if v = VNil then
            (case Args p of
               [] \<Rightarrow> Panic IndexOutOfRange
             | a # _ \<Rightarrow> Err (ErrUnsupportedFormat a (Attribute p)))
          else Ok v)"

section \<open>Parse\<close>

text \<open>
  \<open>Parse L p\<close> is a call \<^verbatim>\<open>Parse(p)\<close>: its first component is what the call returns,
  its second what the value that was in \<^verbatim>\<open>p.Value\<close> at the call holds afterwards (a slice
  is written in place, element by element). \<^verbatim>\<open>p.Value\<close> itself is overwritten before
  each recursive call and read only at the head of a call, so a recursive call is a call
  on \<open>p\<lparr>Value := x\<rparr>\<close>.

  \<open>ParseElems L p s i\<close> is the loop over a slice or array \<open>s\<close> from index \<open>i\<close> on, and
  \<open>ParseKeys L p result keys\<close> the loop over the map keys still to visit. The loop
  reads element \<open>i\<close> as the writes to the elements before it have left \<open>s\<close>; in a
  tree these writes do not reach element \<open>i\<close>.
\<close>

function Parse :: "externals \<Rightarrow> ParseParams \<Rightarrow> outcome \<times> val"
  and ParseElems :: "externals \<Rightarrow> ParseParams \<Rightarrow> val \<Rightarrow> nat \<Rightarrow> outcome \<times> val"
  and ParseKeys :: "externals \<Rightarrow> ParseParams \<Rightarrow> val \<Rightarrow> val list \<Rightarrow> outcome"
where
  "Parse L p =
     (case TypeOf (Value p) of
        None \<Rightarrow> (Panic NilPointer, Value p)
      | Some t \<Rightarrow>
          if Kind t = KSlice \<or> Kind t = KArray then ParseElems L p (Value p) 0
          else if Kind t = KMap then (ParseKeys L p (MakeMap t) (MapKeys (Value p)), Value p)
          else
            (case (if ToUpper (Name p) = ''FORMAT'' then pFormat L p
                   else if ToUpper (Name p) = ''UPPER'' then
                     (case Value p of
                        VString s \<Rightarrow> Ok (VString (upper L s))
                      | _ \<Rightarrow> Panic TypeAssertion)
                   else if ToUpper (Name p) = ''LOWER'' then
                     (case Value p of
                        VString s \<Rightarrow> Ok (VString (lower L s))
                      | _ \<Rightarrow> Panic TypeAssertion)
                   else Ok VNil) of
               Panic x \<Rightarrow> (Panic x, Value p)
             | Err err \<Rightarrow> (Err err, Value p)
             | Ok v \<Rightarrow>
                 if v = VNil then (Err (ErrNotImplemented (Name p) (Attribute p)), Value p)
                 else (Ok v, Value p)))"
| "ParseElems L p s i =
     (if i < Len s then
        (case Parse L (p\<lparr>Value := Index s i\<rparr>) of
           (Panic x, x') \<Rightarrow> (Panic x, store s i x')
         | (Err err, x') \<Rightarrow> (Err err, store s i x')
         | (Ok v, x') \<Rightarrow>
             (case SetIndex s i v of
                None \<Rightarrow> (Panic ReflectSet, store s i x')
              | Some s' \<Rightarrow> ParseElems L p s' (i + 1)))
      else (Ok s, s))"
| "ParseKeys L p result [] = Ok result"
| "ParseKeys L p result (key # keys) =
     (case Parse L (p\<lparr>Value := key\<rparr>) of
        (Panic x, x') \<Rightarrow> Panic x
      | (Err err, x') \<Rightarrow> Err err
      | (Ok v, x') \<Rightarrow>
          (case SetMapIndex result v (VBool True) of
             None \<Rightarrow> Panic ReflectSetMapIndex
           | Some result' \<Rightarrow> ParseKeys L p result' keys))"
  by pat_completeness auto

section \<open>Notions used in the statements\<close>

text \<open>
  A scalar is a value that \<open>Parse\<close> hands to a modifier: it is not nil and its kind is
  none of slice, array and map.
\<close>

definition scalar :: "val \<Rightarrow> bool" where
  "scalar v =
     (case TypeOf v of
        None \<Rightarrow> False
      | Some t \<Rightarrow> Kind t \<noteq> KSlice \<and> Kind t \<noteq> KArray \<and> Kind t \<noteq> KMap)"

text \<open>
  \<open>transformed L p x\<close> is the value that the recursive call on \<open>x\<close> returns, when it
  returns one.
\<close>

definition transformed :: "externals \<Rightarrow> ParseParams \<Rightarrow> val \<Rightarrow> val" where
  "transformed L p x = (case fst (Parse L (p\<lparr>Value := x\<rparr>)) of Ok v \<Rightarrow> v | _ \<Rightarrow> VNil)"

text \<open>No two entries of a map have keys that are equal in Go.\<close>

fun distinct_keys :: "(val \<times> val) list \<Rightarrow> bool" where
  "distinct_keys [] = True"
| "distinct_keys ((k, e) # kvs) = ((\<forall>k' \<in> set (map fst kvs). \<not> key_eq k k') \<and> distinct_keys kvs)"

text \<open>
  A table of facts about the standard library, for the examples: \<^verbatim>\<open>ParseFloat\<close> reads
  \<^verbatim>\<open>"1"\<close> as 1 and \<^verbatim>\<open>"2"\<close> as 2 and rejects \<^verbatim>\<open>"abc"\<close>; \<^verbatim>\<open>time.Parse\<close> with the RFC 3339
  layout reads \<^verbatim>\<open>"2020-01-02T15:04:05Z"\<close> as the instant 1577977445 seconds after the
  epoch and rejects \<^verbatim>\<open>"abc"\<close> under every layout; the upper-case form of U+00E9 (the
  bytes 195, 169) is U+00C9 (the bytes 195, 137). The examples use the table at these
  strings only; elsewhere it answers with an error or with its argument as a
  placeholder, and its \<open>formatName\<close> knows no convention.
\<close>

definition sample_externals :: externals where
  "sample_externals =
     \<lparr>ParseFloat = (\<lambda>s. if s = ''1'' then Inr (Finite 1)
                        else if s = ''2'' then Inr (Finite 2)
                        else Inl (NumError s)),
      time_Parse = (\<lambda>layout s.
                      if layout = RFC3339 \<and> s = ''2020-01-02T15:04:05Z''
                      then Inr (Instant 1577977445000000000)
                      else Inl (TimeParseError s)),
      formatName = (\<lambda>a s. None),
      upper_unicode = (\<lambda>s. if s = [CHR 0xC3, CHR 0xA9] then [CHR 0xC3, CHR 0x89] else s),
      lower_unicode = (\<lambda>s. if s = [CHR 0xC3, CHR 0x89] then [CHR 0xC3, CHR 0xA9] else s)\<rparr>"

section \<open>Termination\<close>

text \<open>
  Each recursive call is on a smaller value: the loop over a sequence is measured by
  the elements from \<open>i\<close> on, which a write at index \<open>i\<close> leaves alone.
\<close>

lemma size_elems: "size_list size (elems s) \<le> size s"
  by (cases s) auto

lemma size_MapKeys: "size_list size (MapKeys v) \<le> size v"
proof (cases v)
  case (VMap kt et kvs)
  have "size_list size (map fst kvs) \<le> size_list (size_prod size size) kvs"
    by (induction kvs) auto
  with VMap show ?thesis by simp
qed auto

lemma size_drop:
  "i < length xs \<Longrightarrow>
   size_list size (drop i xs) = size (xs ! i) + 1 + size_list size (drop (Suc i) xs)"
  by (simp add: Cons_nth_drop_Suc [symmetric])

lemma SetIndex_drop:
  "SetIndex s i v = Some s' \<Longrightarrow> drop (Suc i) (elems s') = drop (Suc i) (elems s)"
  by (cases s) (auto split: if_splits)

termination Parse
  apply (relation "measure (\<lambda>x. case x of
      Inl (L, p) \<Rightarrow> 2 * size (Value p) + 2
    | Inr (Inl (L, p, s, i)) \<Rightarrow> 2 * size_list size (drop i (elems s)) + 1
    | Inr (Inr (L, p, result, keys)) \<Rightarrow> 2 * size_list size keys + 1)")
  subgoal by simp
  subgoal for L p t using size_elems [of "Value p"] by simp
  subgoal for L p t using size_MapKeys [of "Value p"] by simp
  subgoal for L p s i by (simp add: Len_def Index_def size_drop)
  subgoal for L p s i by (auto simp: Len_def size_drop dest: SetIndex_drop)
  subgoal by simp
  subgoal by simp
  done

declare Parse.simps [simp del] ParseElems.simps [simp del]

section \<open>Scalars\<close>

text \<open>On a scalar, \<open>Parse\<close> is the switch on the name and the two checks after it.\<close>

lemma Parse_scalar:
  "scalar (Value p) \<Longrightarrow>
   Parse L p =
     (case (if ToUpper (Name p) = ''FORMAT'' then pFormat L p
            else if ToUpper (Name p) = ''UPPER'' then
              (case Value p of VString s \<Rightarrow> Ok (VString (upper L s)) | _ \<Rightarrow> Panic TypeAssertion)
            else if ToUpper (Name p) = ''LOWER'' then
              (case Value p of VString s \<Rightarrow> Ok (VString (lower L s)) | _ \<Rightarrow> Panic TypeAssertion)
            else Ok VNil) of
        Panic x \<Rightarrow> (Panic x, Value p)
      | Err err \<Rightarrow> (Err err, Value p)
      | Ok v \<Rightarrow>
          if v = VNil then (Err (ErrNotImplemented (Name p) (Attribute p)), Value p)
          else (Ok v, Value p))"
proof (cases "TypeOf (Value p)")
  case None
  assume "scalar (Value p)"
  with None show ?thesis by (simp add: scalar_def)
next
  case (Some t)
  assume "scalar (Value p)"
  with Some have "Kind t \<noteq> KSlice" "Kind t \<noteq> KArray" "Kind t \<noteq> KMap"
    by (simp_all add: scalar_def)
  with Some show ?thesis by (subst Parse.simps) simp
qed

text \<open>
  Claim C1. On a scalar, the modifier is chosen by the upper-cased name. A name whose
  upper-case form is none of \<^verbatim>\<open>FORMAT\<close>, \<^verbatim>\<open>UPPER\<close> and \<^verbatim>\<open>LOWER\<close> (the empty name among
  them) leaves both results nil in the switch, and the call returns the error
  \<^verbatim>\<open>ErrNotImplemented{p.Name, p.Attribute}\<close>; it never returns the value unchanged.
\<close>

theorem unknown_name_not_implemented:
  assumes "scalar (Value p)"
  shows "(ToUpper (Name p) \<notin> {''FORMAT'', ''UPPER'', ''LOWER''} \<longrightarrow>
            Parse L p = (Err (ErrNotImplemented (Name p) (Attribute p)), Value p))
       \<and> (Name p = [] \<longrightarrow>
            Parse L p = (Err (ErrNotImplemented [] (Attribute p)), Value p))"
  using assms by (simp add: Parse_scalar)

theorem unknown_name_not_implemented_witness:
  "Parse sample_externals \<lparr>Attribute = ''size'', Value = VString ''2'', Name = ''FOO'', Args = [''KB'']\<rparr>
     = (Err (ErrNotImplemented ''FOO'' ''size''), VString ''2'')
   \<and> Parse sample_externals \<lparr>Attribute = ''name'', Value = VInt 7, Name = [], Args = []\<rparr>
     = (Err (ErrNotImplemented [] ''name''), VInt 7)"
  using unknown_name_not_implemented [of "\<lparr>Attribute = ''size'', Value = VString ''2'', Name = ''FOO'', Args = [''KB'']\<rparr>" sample_externals]
    unknown_name_not_implemented [of "\<lparr>Attribute = ''name'', Value = VInt 7, Name = [], Args = []\<rparr>" sample_externals]
  by (simp add: scalar_def to_upper_char_def)

text \<open>
  Claim C10. A request whose \<^verbatim>\<open>Value\<close> is the nil interface has no result:
  \<^verbatim>\<open>reflect.TypeOf(nil)\<close> is nil and the call of \<^verbatim>\<open>Kind\<close> on it panics, whatever the
  other fields are.
\<close>

theorem nil_value_panics:
  "Parse L (p\<lparr>Value := VNil\<rparr>) = (Panic NilPointer, VNil)"
  by (simp add: Parse.simps)


lemma scalar_VString: "scalar (VString s)" by (simp add: scalar_def)

lemma pFormat_size:
  "Attribute p = ''size'' \<Longrightarrow> Value p = VString s \<Longrightarrow> ParseFloat L s = Inr x \<Longrightarrow>
   Args p = a # as \<Longrightarrow>
   pFormat L p =
     (if ToUpper a = ''B'' then Ok (VFloat64 (scale x 0))
      else if ToUpper a = ''KB'' then Ok (VFloat64 (scale x 10))
      else if ToUpper a = ''MB'' then Ok (VFloat64 (scale x 20))
      else if ToUpper a = ''GB'' then Ok (VFloat64 (scale x 20))
      else Err (ErrUnsupportedFormat a ''size''))"
  by (simp add: pFormat_def pFormatSize_def)

text \<open>
  The product of a \<^verbatim>\<open>float64\<close> with \<open>2 ^ k\<close>, written out: a finite \<open>r\<close> gives the real
  product \<open>r * 2 ^ k\<close> when that is within the largest finite \<^verbatim>\<open>float64\<close>,
  \<open>2 ^ 1024 - 2 ^ 971\<close>, and the infinity of its sign otherwise; an infinity and a NaN
  are kept.
\<close>

lemma scale_product:
  "scale x k =
     (case x of
        Finite r \<Rightarrow>
          if \<bar>r\<bar> * 2 ^ k \<le> 2 ^ 1024 - 2 ^ 971 then Finite (r * 2 ^ k)
          else if 0 < r then PosInf else NegInf
      | _ \<Rightarrow> x)"
  by (cases x) (simp_all add: max_float64_def)

text \<open>
  Claim C5. \<^verbatim>\<open>FORMAT\<close> with attribute \<^verbatim>\<open>size\<close>, on a string that \<^verbatim>\<open>ParseFloat\<close> reads as
  \<open>x\<close>: with the unit \<^verbatim>\<open>B\<close>, \<^verbatim>\<open>KB\<close> or \<^verbatim>\<open>MB\<close> (in any case) the result is the product of
  \<open>x\<close> with \<open>2 ^ 0 = 1\<close>, \<open>2 ^ 10\<close> or \<open>2 ^ 20\<close>: for a finite \<open>x = r\<close> the real number
  \<open>r * 2 ^ k\<close>, as long as it is within the range of a \<^verbatim>\<open>float64\<close>. A unit that is none
  of \<^verbatim>\<open>B\<close>, \<^verbatim>\<open>KB\<close>, \<^verbatim>\<open>MB\<close>, \<^verbatim>\<open>GB\<close> gives the error
  \<^verbatim>\<open>ErrUnsupportedFormat{p.Args[0], "size"}\<close>. The example evaluates \<^verbatim>\<open>"2"\<close> with
  \<^verbatim>\<open>KB\<close> to 2048.
\<close>

theorem format_size_units:
  assumes "Value p = VString s" and "ToUpper (Name p) = ''FORMAT''"
    and "Attribute p = ''size''" and "ParseFloat L s = Inr x" and "Args p = a # as"
  shows "(\<forall>k. (ToUpper a = ''B'' \<and> k = 0) \<or> (ToUpper a = ''KB'' \<and> k = 10)
               \<or> (ToUpper a = ''MB'' \<and> k = 20) \<longrightarrow>
            Parse L p =
              (Ok (VFloat64
                 (case x of
                    Finite r \<Rightarrow>
                      if \<bar>r\<bar> * 2 ^ k \<le> 2 ^ 1024 - 2 ^ 971 then Finite (r * 2 ^ k)
                      else if 0 < r then PosInf else NegInf
                  | _ \<Rightarrow> x)),
               Value p))
       \<and> (ToUpper a \<notin> {''B'', ''KB'', ''MB'', ''GB''} \<longrightarrow>
            Parse L p = (Err (ErrUnsupportedFormat a ''size''), Value p))"
proof -
  have sc: "scalar (Value p)" using assms(1) by (simp add: scalar_VString)
  have P: "Parse L p =
      (case pFormat L p of
         Panic x \<Rightarrow> (Panic x, Value p)
       | Err err \<Rightarrow> (Err err, Value p)
       | Ok v \<Rightarrow>
           if v = VNil then (Err (ErrNotImplemented (Name p) (Attribute p)), Value p)
           else (Ok v, Value p))"
    using sc assms(2) by (simp add: Parse_scalar)
  have F: "pFormat L p =
     (if ToUpper a = ''B'' then Ok (VFloat64 (scale x 0))
      else if ToUpper a = ''KB'' then Ok (VFloat64 (scale x 10))
      else if ToUpper a = ''MB'' then Ok (VFloat64 (scale x 20))
      else if ToUpper a = ''GB'' then Ok (VFloat64 (scale x 20))
      else Err (ErrUnsupportedFormat a ''size''))"
    using assms(3,1,4,5) by (rule pFormat_size)
  have units: "Parse L p = (Ok (VFloat64 (scale x k)), Value p)"
    if "(ToUpper a = ''B'' \<and> k = 0) \<or> (ToUpper a = ''KB'' \<and> k = 10)
        \<or> (ToUpper a = ''MB'' \<and> k = 20)" for k
    using that by (auto simp: P F)
  have other: "Parse L p = (Err (ErrUnsupportedFormat a ''size''), Value p)"
    if "ToUpper a \<notin> {''B'', ''KB'', ''MB'', ''GB''}"
    using that by (simp add: P F)
  show ?thesis
    using units other by (simp only: scale_product [symmetric]) blast
qed

theorem format_size_units_witness:
  "Parse sample_externals
     \<lparr>Attribute = ''size'', Value = VString ''2'', Name = ''FORMAT'', Args = [''KB'']\<rparr>
     = (Ok (VFloat64 (Finite 2048)), VString ''2'')
   \<and> Parse sample_externals
     \<lparr>Attribute = ''size'', Value = VString ''2'', Name = ''format'', Args = [''b'']\<rparr>
     = (Ok (VFloat64 (Finite 2)), VString ''2'')
   \<and> Parse sample_externals
     \<lparr>Attribute = ''size'', Value = VString ''2'', Name = ''FORMAT'', Args = [''mb'']\<rparr>
     = (Ok (VFloat64 (Finite 2097152)), VString ''2'')
   \<and> Parse sample_externals
     \<lparr>Attribute = ''size'', Value = VString ''2'', Name = ''FORMAT'', Args = [''TB'']\<rparr>
     = (Err (ErrUnsupportedFormat ''TB'' ''size''), VString ''2'')"
  using
    format_size_units [of "\<lparr>Attribute = ''size'', Value = VString ''2'', Name = ''FORMAT'', Args = [''KB'']\<rparr>"
      "''2''" sample_externals "Finite 2" "''KB''" "[]"]
    format_size_units [of "\<lparr>Attribute = ''size'', Value = VString ''2'', Name = ''format'', Args = [''b'']\<rparr>"
      "''2''" sample_externals "Finite 2" "''b''" "[]"]
    format_size_units [of "\<lparr>Attribute = ''size'', Value = VString ''2'', Name = ''FORMAT'', Args = [''mb'']\<rparr>"
      "''2''" sample_externals "Finite 2" "''mb''" "[]"]
    format_size_units [of "\<lparr>Attribute = ''size'', Value = VString ''2'', Name = ''FORMAT'', Args = [''TB'']\<rparr>"
      "''2''" sample_externals "Finite 2" "''TB''" "[]"]
  by (simp add: sample_externals_def to_upper_char_def)

text \<open>
  Claim C6. With the unit \<^verbatim>\<open>GB\<close> (in any case) the number is multiplied by \<open>2 ^ 20\<close>:
  the result is the one of the unit \<^verbatim>\<open>MB\<close>, for a finite \<open>x = r\<close> within range the real
  number \<open>r * 2 ^ 20\<close>, which is not \<open>r * 2 ^ 30\<close> unless \<open>r\<close> is 0. \<^verbatim>\<open>"1"\<close> with \<^verbatim>\<open>GB\<close> is
  1048576.
\<close>

theorem format_size_gb:
  assumes "Value p = VString s" and "ToUpper (Name p) = ''FORMAT''"
    and "Attribute p = ''size''" and "ParseFloat L s = Inr x" and "Args p = a # as"
    and "ToUpper a = ''GB''"
  shows "Parse L p =
           (Ok (VFloat64
              (case x of
                 Finite r \<Rightarrow>
                   if \<bar>r\<bar> * 2 ^ 20 \<le> 2 ^ 1024 - 2 ^ 971 then Finite (r * 2 ^ 20)
                   else if 0 < r then PosInf else NegInf
               | _ \<Rightarrow> x)),
            Value p)
       \<and> Parse L p = Parse L (p\<lparr>Args := ''MB'' # as\<rparr>)
       \<and> (\<forall>r. x = Finite r \<and> r \<noteq> 0 \<and> \<bar>r\<bar> * 2 ^ 20 \<le> 2 ^ 1024 - 2 ^ 971 \<longrightarrow>
             fst (Parse L p) \<noteq> Ok (VFloat64 (Finite (r * 2 ^ 30))))"
proof -
  have sc: "scalar (Value p)" using assms(1) by (simp add: scalar_VString)
  have gb: "Parse L p = (Ok (VFloat64 (scale x 20)), Value p)"
    using sc assms by (simp add: Parse_scalar pFormat_size)
  let ?q = "p\<lparr>Args := ''MB'' # as\<rparr>"
  have "pFormat L ?q = Ok (VFloat64 (scale x 20))"
    using assms(1,3,4) pFormat_size [of ?q s L x "''MB''" as]
    by (simp add: to_upper_char_def)
  then have mb: "Parse L ?q = (Ok (VFloat64 (scale x 20)), Value p)"
    using sc assms(2) by (simp add: Parse_scalar)
  have ne: "fst (Parse L p) \<noteq> Ok (VFloat64 (Finite (r * 2 ^ 30)))"
    if "x = Finite r \<and> r \<noteq> 0 \<and> \<bar>r\<bar> * 2 ^ 20 \<le> 2 ^ 1024 - 2 ^ 971" for r
    using that by (simp add: gb max_float64_def)
  show ?thesis
    using gb mb ne by (simp only: scale_product [symmetric]) blast
qed

theorem format_size_gb_witness:
  "Parse sample_externals
     \<lparr>Attribute = ''size'', Value = VString ''1'', Name = ''FORMAT'', Args = [''GB'']\<rparr>
     = (Ok (VFloat64 (Finite 1048576)), VString ''1'')
   \<and> Parse sample_externals
     \<lparr>Attribute = ''size'', Value = VString ''1'', Name = ''FORMAT'', Args = [''MB'']\<rparr>
     = (Ok (VFloat64 (Finite 1048576)), VString ''1'')"
proof -
  let ?p = "\<lparr>Attribute = ''size'', Value = VString ''1'', Name = ''FORMAT'', Args = [''GB'']\<rparr>"
  have h: "Value ?p = VString ''1''" "ToUpper (Name ?p) = ''FORMAT''"
    "Attribute ?p = ''size''" "ParseFloat sample_externals ''1'' = Inr (Finite 1)"
    "Args ?p = ''GB'' # []" "ToUpper ''GB'' = ''GB''"
    by (simp_all add: sample_externals_def to_upper_char_def)
  note gb = format_size_gb [OF h]
  have A: "Parse sample_externals ?p = (Ok (VFloat64 (Finite 1048576)), VString ''1'')"
    using gb by simp
  have B: "Parse sample_externals ?p = Parse sample_externals (?p\<lparr>Args := ''MB'' # []\<rparr>)"
    using gb by blast
  show ?thesis using A B by simp
qed

text \<open>
  Claim C7 says that \<^verbatim>\<open>FORMAT\<close> with an attribute other than \<^verbatim>\<open>name\<close>, \<^verbatim>\<open>size\<close> and
  \<^verbatim>\<open>time\<close> returns \<^verbatim>\<open>ErrNotImplemented\<close>. In \<^verbatim>\<open>pFormat\<close> no case of the switch matches,
  the value stays nil, and the check \<^verbatim>\<open>val == nil\<close> returns
  \<^verbatim>\<open>ErrUnsupportedFormat{p.Args[0], p.Attribute}\<close>, which \<open>Parse\<close> hands on: with the
  attribute \<^verbatim>\<open>mode\<close> and the argument \<^verbatim>\<open>KB\<close> the error is
  \<^verbatim>\<open>ErrUnsupportedFormat{"KB", "mode"}\<close>.
\<close>

theorem format_other_attribute_counterexample:
  "Parse sample_externals
     \<lparr>Attribute = ''mode'', Value = VString ''x'', Name = ''FORMAT'', Args = [''KB'']\<rparr>
     = (Err (ErrUnsupportedFormat ''KB'' ''mode''), VString ''x'')
   \<and> fst (Parse sample_externals
     \<lparr>Attribute = ''mode'', Value = VString ''x'', Name = ''FORMAT'', Args = [''KB'']\<rparr>)
     \<noteq> Err (ErrNotImplemented ''FORMAT'' ''mode'')"
  by (simp add: Parse_scalar scalar_def pFormat_def to_upper_char_def)

text \<open>
  Claim C7, amended. A scalar \<^verbatim>\<open>FORMAT\<close> request whose attribute is none of \<^verbatim>\<open>name\<close>,
  \<^verbatim>\<open>size\<close> and \<^verbatim>\<open>time\<close>, with at least one argument, returns the error
  \<^verbatim>\<open>ErrUnsupportedFormat{p.Args[0], p.Attribute}\<close>.
\<close>

theorem format_other_attribute:
  assumes "scalar (Value p)" and "ToUpper (Name p) = ''FORMAT''"
    and "Attribute p \<notin> {''name'', ''size'', ''time''}" and "Args p = a # as"
  shows "Parse L p = (Err (ErrUnsupportedFormat a (Attribute p)), Value p)"
  using assms by (simp add: Parse_scalar pFormat_def)

theorem format_other_attribute_witness:
  "Parse sample_externals
     \<lparr>Attribute = ''mode'', Value = VInt 3, Name = ''Format'', Args = [''KB'', ''x'']\<rparr>
     = (Err (ErrUnsupportedFormat ''KB'' ''mode''), VInt 3)"
  using format_other_attribute [of "\<lparr>Attribute = ''mode'', Value = VInt 3, Name = ''Format'', Args = [''KB'', ''x'']\<rparr>"
      "''KB''" "[''x'']" sample_externals]
  by (simp add: scalar_def to_upper_char_def)

text \<open>
  Claim C8 says that \<^verbatim>\<open>UPPER\<close> and \<^verbatim>\<open>LOWER\<close> fail with a type-mismatch error on a value
  that is not a string. The code asserts \<^verbatim>\<open>p.Value.(string)\<close> in the one-result form,
  which panics: on the integer 5 the call does not return an error.
\<close>

theorem upper_lower_counterexample:
  "Parse sample_externals
     \<lparr>Attribute = ''name'', Value = VInt 5, Name = ''UPPER'', Args = []\<rparr>
     = (Panic TypeAssertion, VInt 5)"
  by (simp add: Parse_scalar scalar_def to_upper_char_def)

lemma of_char_to_upper_char:
  "(of_char (to_upper_char c) :: nat) =
     (if 97 \<le> (of_char c :: nat) \<and> (of_char c :: nat) \<le> 122 then of_char c - 32
      else of_char c)"
  by (cases c) (auto simp: to_upper_char_def)

lemma of_char_to_lower_char:
  "(of_char (to_lower_char c) :: nat) =
     (if 65 \<le> (of_char c :: nat) \<and> (of_char c :: nat) \<le> 90 then of_char c + 32
      else of_char c)"
  by (cases c) (auto simp: to_lower_char_def)

text \<open>
  Claim C8, amended. On a scalar, \<^verbatim>\<open>UPPER\<close> and \<^verbatim>\<open>LOWER\<close> panic in the type assertion on
  every value that is not a string, and return the upper-case and the lower-case form
  of a string under the locale-insensitive case mapping. On ASCII text that form is
  given byte by byte: the byte \<open>n\<close> of a letter \<^verbatim>\<open>a\<close>..\<^verbatim>\<open>z\<close> becomes \<open>n - 32\<close> in upper
  case, the byte of a letter \<^verbatim>\<open>A\<close>..\<^verbatim>\<open>Z\<close> becomes \<open>n + 32\<close> in lower case, and every
  other byte is kept. Beyond ASCII it is the form that the Unicode case tables give.
\<close>

theorem upper_lower:
  assumes "scalar (Value p)"
  shows "(ToUpper (Name p) = ''UPPER'' \<longrightarrow>
            Parse L p = (case Value p of VString s \<Rightarrow> Ok (VString (upper L s))
                         | _ \<Rightarrow> Panic TypeAssertion, Value p))
       \<and> (ToUpper (Name p) = ''LOWER'' \<longrightarrow>
            Parse L p = (case Value p of VString s \<Rightarrow> Ok (VString (lower L s))
                         | _ \<Rightarrow> Panic TypeAssertion, Value p))
       \<and> (\<forall>s. ascii s \<longrightarrow>
             map of_char (upper L s) =
               map (\<lambda>c. if 97 \<le> (of_char c :: nat) \<and> (of_char c :: nat) \<le> 122
                         then of_char c - 32 else (of_char c :: nat)) s
           \<and> map of_char (lower L s) =
               map (\<lambda>c. if 65 \<le> (of_char c :: nat) \<and> (of_char c :: nat) \<le> 90
                         then of_char c + 32 else (of_char c :: nat)) s)
       \<and> (\<forall>s. \<not> ascii s \<longrightarrow>
             upper L s = upper_unicode L s \<and> lower L s = lower_unicode L s)"
proof -
  have "Parse L p = (case Value p of VString s \<Rightarrow> Ok (VString (upper L s))
                     | _ \<Rightarrow> Panic TypeAssertion, Value p)"
    if "ToUpper (Name p) = ''UPPER''"
    using assms that by (auto simp: Parse_scalar split: val.splits)
  moreover have "Parse L p = (case Value p of VString s \<Rightarrow> Ok (VString (lower L s))
                     | _ \<Rightarrow> Panic TypeAssertion, Value p)"
    if "ToUpper (Name p) = ''LOWER''"
    using assms that by (auto simp: Parse_scalar split: val.splits)
  moreover have "map of_char (upper L s) =
               map (\<lambda>c. if 97 \<le> (of_char c :: nat) \<and> (of_char c :: nat) \<le> 122
                         then of_char c - 32 else (of_char c :: nat)) s"
    if "ascii s" for s
    using that by (simp add: upper_def of_char_to_upper_char)
  moreover have "map of_char (lower L s) =
               map (\<lambda>c. if 65 \<le> (of_char c :: nat) \<and> (of_char c :: nat) \<le> 90
                         then of_char c + 32 else (of_char c :: nat)) s"
    if "ascii s" for s
    using that by (simp add: lower_def of_char_to_lower_char)
  moreover have "upper L s = upper_unicode L s \<and> lower L s = lower_unicode L s"
    if "\<not> ascii s" for s
    using that by (simp add: upper_def lower_def)
  ultimately show ?thesis by blast
qed

theorem upper_lower_witness:
  "Parse sample_externals \<lparr>Attribute = ''name'', Value = VString ''abc'', Name = ''upper'', Args = []\<rparr>
     = (Ok (VString ''ABC''), VString ''abc'')
   \<and> Parse sample_externals \<lparr>Attribute = ''name'', Value = VString ''ABC'', Name = ''LOWER'', Args = []\<rparr>
     = (Ok (VString ''abc''), VString ''ABC'')
   \<and> Parse sample_externals
       \<lparr>Attribute = ''name'', Value = VString [CHR 0xC3, CHR 0xA9], Name = ''UPPER'', Args = []\<rparr>
     = (Ok (VString [CHR 0xC3, CHR 0x89]), VString [CHR 0xC3, CHR 0xA9])
   \<and> Parse sample_externals \<lparr>Attribute = ''name'', Value = VBool True, Name = ''LOWER'', Args = []\<rparr>
     = (Panic TypeAssertion, VBool True)"
  using
    upper_lower [of "\<lparr>Attribute = ''name'', Value = VString ''abc'', Name = ''upper'', Args = []\<rparr>" sample_externals]
    upper_lower [of "\<lparr>Attribute = ''name'', Value = VString ''ABC'', Name = ''LOWER'', Args = []\<rparr>" sample_externals]
    upper_lower [of "\<lparr>Attribute = ''name'', Value = VString [CHR 0xC3, CHR 0xA9], Name = ''UPPER'', Args = []\<rparr>" sample_externals]
    upper_lower [of "\<lparr>Attribute = ''name'', Value = VBool True, Name = ''LOWER'', Args = []\<rparr>" sample_externals]
  by (simp add: scalar_def to_upper_char_def upper_def lower_def ascii_def to_lower_char_def
      sample_externals_def)

text \<open>
  Claim C9 says that a missing \<^verbatim>\<open>args[0]\<close> selects the third layout. The code reads
  \<^verbatim>\<open>p.Args[0]\<close> before it chooses a layout, so with an empty \<^verbatim>\<open>Args\<close> the call panics
  with an index out of range and no layout is used.
\<close>

theorem format_time_counterexample:
  "Parse sample_externals
     \<lparr>Attribute = ''time'', Value = VString ''2020-01-02T15:04:05Z'', Name = ''FORMAT'', Args = []\<rparr>
     = (Panic IndexOutOfRange, VString ''2020-01-02T15:04:05Z'')"
  by (simp add: Parse_scalar scalar_def pFormat_def pFormatTime_def to_upper_char_def)

text \<open>
  Claim C9, amended. \<^verbatim>\<open>FORMAT\<close> with attribute \<^verbatim>\<open>time\<close>, on a string and with at least
  one argument: \<^verbatim>\<open>ISO\<close> (in any case, as \<^verbatim>\<open>strings.ToUpper\<close> decides it) selects \<^verbatim>\<open>time.RFC3339\<close>, \<^verbatim>\<open>UNIX\<close> selects
  \<^verbatim>\<open>time.UnixDate\<close>, every other first argument selects \<^verbatim>\<open>"Jan 02 2006 15 04"\<close>. The
  result is the parsed time, or the error of \<^verbatim>\<open>time.Parse\<close> as it is.
\<close>

theorem format_time_layout:
  assumes "Value p = VString s" and "ToUpper (Name p) = ''FORMAT''"
    and "Attribute p = ''time''" and "Args p = a # as"
  shows "Parse L p =
     (case time_Parse L
             (if ToUpper a = ''ISO'' then ''2006-01-02T15:04:05Z07:00''
              else if ToUpper a = ''UNIX'' then ''Mon Jan _2 15:04:05 MST 2006''
              else ''Jan 02 2006 15 04'') s of
        Inl err \<Rightarrow> Err err
      | Inr t \<Rightarrow> Ok (VTime t),
      Value p)"
proof -
  have "scalar (Value p)" using assms(1) by (simp add: scalar_VString)
  then show ?thesis
    using assms
    by (simp add: Parse_scalar pFormat_def pFormatTime_def RFC3339_def UnixDate_def
        split: sum.splits)
qed

theorem format_time_layout_witness:
  "Parse sample_externals
     \<lparr>Attribute = ''time'', Value = VString ''2020-01-02T15:04:05Z'', Name = ''FORMAT'', Args = [''iso'']\<rparr>
     = (Ok (VTime (Instant 1577977445000000000)), VString ''2020-01-02T15:04:05Z'')
   \<and> Parse sample_externals
     \<lparr>Attribute = ''time'', Value = VString ''2020-01-02T15:04:05Z'', Name = ''FORMAT'',
      Args = [[CHR 0xC4, CHR 0xB1, CHR ''s'', CHR ''o'']]\<rparr>
     = (Ok (VTime (Instant 1577977445000000000)), VString ''2020-01-02T15:04:05Z'')
   \<and> Parse sample_externals
     \<lparr>Attribute = ''time'', Value = VString ''abc'', Name = ''FORMAT'', Args = [''other'']\<rparr>
     = (Err (TimeParseError ''abc''), VString ''abc'')"
  using
    format_time_layout [of "\<lparr>Attribute = ''time'', Value = VString ''2020-01-02T15:04:05Z'', Name = ''FORMAT'', Args = [''iso'']\<rparr>"
       "''2020-01-02T15:04:05Z''" "''iso''" "[]" sample_externals]
    format_time_layout [of "\<lparr>Attribute = ''time'', Value = VString ''2020-01-02T15:04:05Z'', Name = ''FORMAT'',
         Args = [[CHR 0xC4, CHR 0xB1, CHR ''s'', CHR ''o'']]\<rparr>"
       "''2020-01-02T15:04:05Z''" "[CHR 0xC4, CHR 0xB1, CHR ''s'', CHR ''o'']" "[]" sample_externals]
    format_time_layout [of "\<lparr>Attribute = ''time'', Value = VString ''abc'', Name = ''FORMAT'', Args = [''other'']\<rparr>"
       "''abc''" "''other''" "[]" sample_externals]
  by (simp add: sample_externals_def to_upper_char_def RFC3339_def)

section \<open>Slices, arrays and maps\<close>

lemma Parse_slice: "Value p = VSlice t xs \<Longrightarrow> Parse L p = ParseElems L p (VSlice t xs) 0"
  by (subst Parse.simps) simp

lemma Parse_array: "Value p = VArray t xs \<Longrightarrow> Parse L p = ParseElems L p (VArray t xs) 0"
  by (subst Parse.simps) simp

lemma Parse_map:
  "Value p = VMap kt et kvs \<Longrightarrow>
   Parse L p = (ParseKeys L p (VMap kt et []) (map fst kvs), Value p)"
  by (subst Parse.simps) simp

lemma transformed_Ok:
  "fst (Parse L (p\<lparr>Value := x\<rparr>)) = Ok v \<Longrightarrow> transformed L p x = v"
  by (simp add: transformed_def)

text \<open>
  The loop over a slice, from any index \<open>i\<close> on: when every remaining element is
  transformed to a value that its slot accepts, the loop ends with the elements from
  \<open>i\<close> on replaced by their transformed values.
\<close>

lemma ParseElems_slice_ok:
  assumes "\<forall>x \<in> set (drop i ys). \<exists>v. fst (Parse L (p\<lparr>Value := x\<rparr>)) = Ok v \<and> assignable v t"
  shows "ParseElems L p (VSlice t ys) i =
           (Ok (VSlice t (take i ys @ map (transformed L p) (drop i ys))),
            VSlice t (take i ys @ map (transformed L p) (drop i ys)))"
  using assms
proof (induction "length ys - i" arbitrary: ys i)
  case 0
  then show ?case by (subst ParseElems.simps) (simp add: Len_def)
next
  case (Suc n)
  then have lt: "i < length ys" by simp
  then have "ys ! i \<in> set (drop i ys)"
    by (metis Cons_nth_drop_Suc list.set_intros(1))
  with Suc.prems obtain v where v: "fst (Parse L (p\<lparr>Value := ys ! i\<rparr>)) = Ok v" "assignable v t"
    by blast
  then obtain x' where P: "Parse L (p\<lparr>Value := ys ! i\<rparr>) = (Ok v, x')"
    by (cases "Parse L (p\<lparr>Value := ys ! i\<rparr>)") simp
  have tv: "transformed L p (ys ! i) = v" using v(1) by (rule transformed_Ok)
  let ?ys = "ys[i := v]"
  have n: "n = length ?ys - Suc i" using Suc.hyps(2) by simp
  have d: "drop (Suc i) ?ys = drop (Suc i) ys" by simp
  have "\<forall>x \<in> set (drop (Suc i) ?ys). \<exists>v. fst (Parse L (p\<lparr>Value := x\<rparr>)) = Ok v \<and> assignable v t"
  proof -
    have "set (drop (Suc i) ys) \<subseteq> set (drop i ys)"
      by (rule set_drop_subset_set_drop) simp
    with Suc.prems show ?thesis by (auto simp: d)
  qed
  from Suc.hyps(1) [OF n this]
  have IH: "ParseElems L p (VSlice t ?ys) (Suc i) =
           (Ok (VSlice t (take (Suc i) ?ys @ map (transformed L p) (drop (Suc i) ys))),
            VSlice t (take (Suc i) ?ys @ map (transformed L p) (drop (Suc i) ys)))"
    by (simp only: d)
  have t: "take (Suc i) ?ys = take i ys @ [v]"
    using lt by (simp add: take_Suc_conv_app_nth)
  have e: "take i ys @ map (transformed L p) (drop i ys)
         = take i ys @ [v] @ map (transformed L p) (drop (Suc i) ys)"
    using lt tv by (simp add: Cons_nth_drop_Suc [symmetric])
  show ?case
    using lt P v(2) IH by (subst ParseElems.simps) (simp add: Len_def Index_def t e)
qed

text \<open>
  The loop over a slice when the element at \<open>k\<close> is the first to fail: the elements
  before \<open>k\<close> have been written, the element at \<open>k\<close> is what its own call left of it,
  and the elements after \<open>k\<close> have not been visited.
\<close>

lemma ParseElems_slice_err:
  assumes "i \<le> k" and "k < length ys"
    and "\<forall>j. i \<le> j \<and> j < k \<longrightarrow> (\<exists>v. fst (Parse L (p\<lparr>Value := ys ! j\<rparr>)) = Ok v \<and> assignable v t)"
    and "Parse L (p\<lparr>Value := ys ! k\<rparr>) = (Err e, x')"
  shows "ParseElems L p (VSlice t ys) i =
           (Err e, VSlice t (take i ys @ map (transformed L p) (take (k - i) (drop i ys))
                              @ x' # drop (Suc k) ys))"
  using assms
proof (induction "k - i" arbitrary: ys i)
  case 0
  then have "i = k" by simp
  with 0 show ?case
    by (subst ParseElems.simps) (simp add: Len_def Index_def upd_conv_take_nth_drop)
next
  case (Suc n)
  then have lt: "i < k" "i < length ys" by simp_all
  with Suc.prems obtain v where v: "fst (Parse L (p\<lparr>Value := ys ! i\<rparr>)) = Ok v" "assignable v t"
    by (metis le_refl)
  then obtain y' where P: "Parse L (p\<lparr>Value := ys ! i\<rparr>) = (Ok v, y')"
    by (cases "Parse L (p\<lparr>Value := ys ! i\<rparr>)") simp
  have tv: "transformed L p (ys ! i) = v" using v(1) by (rule transformed_Ok)
  let ?ys = "ys[i := v]"
  have n: "n = k - Suc i" using Suc.hyps(2) by simp
  have a: "Suc i \<le> k" "k < length ?ys" using lt Suc.prems by simp_all
  have b: "\<forall>j. Suc i \<le> j \<and> j < k \<longrightarrow> (\<exists>v. fst (Parse L (p\<lparr>Value := ?ys ! j\<rparr>)) = Ok v \<and> assignable v t)"
    using Suc.prems(3) by simp
  have c: "Parse L (p\<lparr>Value := ?ys ! k\<rparr>) = (Err e, x')"
    using Suc.prems(4) lt by simp
  from Suc.hyps(1) [OF n a b c]
  have IH: "ParseElems L p (VSlice t ?ys) (Suc i) =
           (Err e, VSlice t (take (Suc i) ?ys @ map (transformed L p) (take (k - Suc i) (drop (Suc i) ys))
                              @ x' # drop (Suc k) ys))"
    using lt by simp
  have t: "take (Suc i) ?ys = take i ys @ [v]"
    using lt by (simp add: take_Suc_conv_app_nth)
  have e: "map (transformed L p) (take (k - i) (drop i ys))
         = v # map (transformed L p) (take (k - Suc i) (drop (Suc i) ys))"
  proof -
    have "k - i = Suc (k - Suc i)" using lt by simp
    moreover have "drop i ys = ys ! i # drop (Suc i) ys"
      using lt by (simp add: Cons_nth_drop_Suc)
    ultimately show ?thesis using tv by simp
  qed
  show ?case
    using lt P v(2) IH by (subst ParseElems.simps) (simp add: Len_def Index_def t e)
qed


text \<open>
  The loop over the keys of a map, and what its successive \<^verbatim>\<open>SetMapIndex\<close> calls build.
\<close>

lemma ParseKeys_ok:
  assumes "assignable (VBool True) et"
    and "\<forall>k \<in> set keys. \<exists>v. fst (Parse L (p\<lparr>Value := k\<rparr>)) = Ok v \<and> assignable v kt"
  shows "ParseKeys L p (VMap kt et acc) keys =
           Ok (VMap kt et (foldl (\<lambda>m k. assign m (transformed L p k) (VBool True)) acc keys))"
  using assms(2)
proof (induction keys arbitrary: acc)
  case Nil
  then show ?case by simp
next
  case (Cons key keys)
  then obtain v where v: "fst (Parse L (p\<lparr>Value := key\<rparr>)) = Ok v" "assignable v kt"
    by auto
  then obtain x' where P: "Parse L (p\<lparr>Value := key\<rparr>) = (Ok v, x')"
    by (cases "Parse L (p\<lparr>Value := key\<rparr>)") simp
  have tv: "transformed L p key = v" using v(1) by (rule transformed_Ok)
  from Cons have IH: "ParseKeys L p (VMap kt et (assign acc v (VBool True))) keys =
      Ok (VMap kt et (foldl (\<lambda>m k. assign m (transformed L p k) (VBool True))
                        (assign acc v (VBool True)) keys))"
    by simp
  show ?case using P v(2) assms(1) IH tv by simp
qed

lemma set_assign:
  "\<forall>x \<in> set m. snd x = e \<Longrightarrow> set (assign m k e) = insert (k, e) (set m)"
proof (induction m)
  case Nil
  then show ?case by simp
next
  case (Cons x m)
  then show ?case by (cases x) (auto simp: key_eq_def)
qed

lemma keys_assign: "(k', e') \<in> set (assign m k e) \<Longrightarrow> k' = k \<or> k' \<in> fst ` set m"
  by (induction m) (force split: if_splits)+

lemma distinct_keys_assign: "distinct_keys m \<Longrightarrow> distinct_keys (assign m k e)"
proof (induction m)
  case Nil
  then show ?case by simp
next
  case (Cons x m)
  obtain k0 e0 where x: "x = (k0, e0)" by (cases x)
  show ?case
  proof (cases "key_eq k0 k")
    case True
    with Cons x show ?thesis by simp
  next
    case False
    have "\<forall>k' \<in> fst ` set (assign m k e). \<not> key_eq k0 k'"
    proof
      fix k' assume "k' \<in> fst ` set (assign m k e)"
      then obtain e' where "(k', e') \<in> set (assign m k e)" by auto
      then have "k' = k \<or> k' \<in> fst ` set m" by (rule keys_assign)
      then show "\<not> key_eq k0 k'" using Cons.prems x False by auto
    qed
    with Cons x False show ?thesis by simp
  qed
qed

lemma foldl_assign:
  assumes "\<forall>x \<in> set acc. snd x = e" and "distinct_keys acc"
  shows "set (foldl (\<lambda>m k. assign m (f k) e) acc keys) = set acc \<union> (\<lambda>k. (f k, e)) ` set keys
       \<and> distinct_keys (foldl (\<lambda>m k. assign m (f k) e) acc keys)"
  using assms
proof (induction keys arbitrary: acc)
  case Nil
  then show ?case by simp
next
  case (Cons key keys)
  have s: "set (assign acc (f key) e) = insert (f key, e) (set acc)"
    using Cons.prems(1) by (rule set_assign)
  then have a: "\<forall>x \<in> set (assign acc (f key) e). snd x = e"
    using Cons.prems(1) by simp
  have d: "distinct_keys (assign acc (f key) e)"
    using Cons.prems(2) by (rule distinct_keys_assign)
  from Cons.IH [OF a d] s show ?case by auto
qed


text \<open>
  Sharing. When one slice occurs at two positions of a request, the visit of the second
  position is a call on the contents that the visit of the first has left. Under
  \<^verbatim>\<open>FORMAT\<close>, \<^verbatim>\<open>size\<close>, \<^verbatim>\<open>KB\<close> the call on \<^verbatim>\<open>[]interface{}{"1"}\<close> leaves 1024 in the
  slice, and a call on that slice panics in the type assertion. So the code panics on
  \<^verbatim>\<open>[]interface{}{inner, inner}\<close>, although a call on \<^verbatim>\<open>inner\<close> as it was succeeds for both
  positions; the statements on slices below are for requests without sharing.
\<close>

lemma second_visit_of_a_written_slice:
  "Parse sample_externals
     \<lparr>Attribute = ''size'', Value = VSlice TInterface [VString ''1''],
      Name = ''FORMAT'', Args = [''KB'']\<rparr>
     = (Ok (VSlice TInterface [VFloat64 (Finite 1024)]),
        VSlice TInterface [VFloat64 (Finite 1024)])
   \<and> Parse sample_externals
     \<lparr>Attribute = ''size'', Value = VSlice TInterface [VFloat64 (Finite 1024)],
      Name = ''FORMAT'', Args = [''KB'']\<rparr>
     = (Panic TypeAssertion, VSlice TInterface [VFloat64 (Finite 1024)])"
  by (simp add: Parse_slice ParseElems.simps Len_def Index_def Parse_scalar
      scalar_def pFormat_size pFormat_def pFormatSize_def sample_externals_def assignable_def
      to_upper_char_def max_float64_def)

text \<open>
  Claim C3 says that a sequence whose elements are all transformed with success comes
  back transformed element by element. The write \<^verbatim>\<open>s.Index(i).Set(...)\<close> can still
  panic. In the array \<^verbatim>\<open>[1]string{"a"}\<close> under \<^verbatim>\<open>UPPER\<close> the element becomes \<^verbatim>\<open>"A"\<close>, but
  an array element reached through \<^verbatim>\<open>reflect.ValueOf\<close> is not addressable. In the slice
  \<^verbatim>\<open>[]string{"2"}\<close> under \<^verbatim>\<open>FORMAT\<close>, \<^verbatim>\<open>size\<close>, \<^verbatim>\<open>KB\<close> the element becomes the
  \<^verbatim>\<open>float64\<close> 2048, which is not assignable to a \<^verbatim>\<open>string\<close> slot.
\<close>

theorem sequence_elementwise_counterexample:
  "fst (Parse sample_externals
     \<lparr>Attribute = ''name'', Value = VString ''a'', Name = ''UPPER'', Args = []\<rparr>)
     = Ok (VString ''A'')
   \<and> Parse sample_externals
     \<lparr>Attribute = ''name'', Value = VArray TString [VString ''a''], Name = ''UPPER'', Args = []\<rparr>
     = (Panic ReflectSet, VArray TString [VString ''a''])
   \<and> fst (Parse sample_externals
     \<lparr>Attribute = ''size'', Value = VString ''2'', Name = ''FORMAT'', Args = [''KB'']\<rparr>)
     = Ok (VFloat64 (Finite 2048))
   \<and> Parse sample_externals
     \<lparr>Attribute = ''size'', Value = VSlice TString [VString ''2''], Name = ''FORMAT'', Args = [''KB'']\<rparr>
     = (Panic ReflectSet, VSlice TString [VString ''2''])"
  by (simp add: Parse_slice Parse_array ParseElems.simps Len_def Index_def Parse_scalar
      scalar_def pFormat_size sample_externals_def assignable_def
      to_upper_char_def upper_def ascii_def max_float64_def)

text \<open>
  Claim C3, amended. For a slice in which no two positions share a backing array (the
  slices that \<open>val\<close> expresses): if the transformation of every element succeeds with
  a value assignable to the element type of the slice, the call returns the slice,
  written in place, with the same length and with the transformed value of the input
  element \<open>i\<close> at each index \<open>i\<close>. The example is \<^verbatim>\<open>[]string{"a", "b"}\<close> under \<^verbatim>\<open>UPPER\<close>.

  Without the condition on sharing the statement fails, as the second visit of a
  written slice shows.
\<close>

theorem slice_elementwise:
  assumes "Value p = VSlice t xs"
    and "\<forall>x \<in> set xs. \<exists>v. fst (Parse L (p\<lparr>Value := x\<rparr>)) = Ok v \<and> assignable v t"
  shows "Parse L p = (Ok (VSlice t (map (transformed L p) xs)), VSlice t (map (transformed L p) xs))
       \<and> length (map (transformed L p) xs) = length xs
       \<and> (\<forall>i < length xs.
            fst (Parse L (p\<lparr>Value := xs ! i\<rparr>)) = Ok (map (transformed L p) xs ! i))"
proof -
  have "ParseElems L p (VSlice t xs) 0 =
          (Ok (VSlice t (map (transformed L p) xs)), VSlice t (map (transformed L p) xs))"
    using ParseElems_slice_ok [of 0 xs L p t] assms(2) by simp
  moreover have "fst (Parse L (p\<lparr>Value := xs ! i\<rparr>)) = Ok (transformed L p (xs ! i))"
    if "i < length xs" for i
  proof -
    from that assms(2) obtain v where "fst (Parse L (p\<lparr>Value := xs ! i\<rparr>)) = Ok v"
      by (metis nth_mem)
    then show ?thesis by (simp add: transformed_def)
  qed
  ultimately show ?thesis using assms(1) by (simp add: Parse_slice)
qed

theorem slice_elementwise_witness:
  "Parse sample_externals
     \<lparr>Attribute = ''name'', Value = VSlice TString [VString ''a'', VString ''b''],
      Name = ''UPPER'', Args = []\<rparr>
     = (Ok (VSlice TString [VString ''A'', VString ''B'']),
        VSlice TString [VString ''A'', VString ''B''])"
  using slice_elementwise [of
      "\<lparr>Attribute = ''name'', Value = VSlice TString [VString ''a'', VString ''b''],
        Name = ''UPPER'', Args = []\<rparr>"
      TString "[VString ''a'', VString ''b'']" sample_externals]
  by (simp add: transformed_def Parse_scalar scalar_def assignable_def
      to_upper_char_def upper_def ascii_def)

text \<open>
  Claim C4 says that when element \<open>k\<close> fails with an error after the elements before
  it succeeded, the call returns that error. With \<^verbatim>\<open>FORMAT\<close>, \<^verbatim>\<open>size\<close>, \<^verbatim>\<open>B\<close> the element
  \<^verbatim>\<open>"1"\<close> succeeds and the element \<^verbatim>\<open>"abc"\<close> fails, but on the array
  \<^verbatim>\<open>[2]interface{}{"1", "abc"}\<close> and on the slice \<^verbatim>\<open>[]string{"1", "abc"}\<close> the call
  panics in the write of element 0 and never reaches element 1.
\<close>

theorem sequence_error_counterexample:
  "fst (Parse sample_externals
     \<lparr>Attribute = ''size'', Value = VString ''1'', Name = ''FORMAT'', Args = [''B'']\<rparr>)
     = Ok (VFloat64 (Finite 1))
   \<and> fst (Parse sample_externals
     \<lparr>Attribute = ''size'', Value = VString ''abc'', Name = ''FORMAT'', Args = [''B'']\<rparr>)
     = Err (NumError ''abc'')
   \<and> Parse sample_externals
     \<lparr>Attribute = ''size'', Value = VArray TInterface [VString ''1'', VString ''abc''],
      Name = ''FORMAT'', Args = [''B'']\<rparr>
     = (Panic ReflectSet, VArray TInterface [VString ''1'', VString ''abc''])
   \<and> Parse sample_externals
     \<lparr>Attribute = ''size'', Value = VSlice TString [VString ''1'', VString ''abc''],
      Name = ''FORMAT'', Args = [''B'']\<rparr>
     = (Panic ReflectSet, VSlice TString [VString ''1'', VString ''abc''])"
  by (simp add: Parse_slice Parse_array ParseElems.simps Len_def Index_def Parse_scalar
      scalar_def pFormat_size pFormat_def pFormatSize_def sample_externals_def assignable_def
      to_upper_char_def max_float64_def)

text \<open>
  Claim C4, amended. For a slice in which no two positions share a backing array (the
  slices that \<open>val\<close> expresses): if the elements before \<open>k\<close> are transformed with
  success to values assignable to the element type and the call on element \<open>k\<close>
  returns the error \<open>e\<close>, the whole call returns \<open>e\<close>, the elements before \<open>k\<close> stay
  replaced by their transformed values in the slice, and the elements after \<open>k\<close> are
  as they were.
\<close>

theorem slice_error_partial:
  assumes "Value p = VSlice t xs" and "k < length xs"
    and "\<forall>j < k. \<exists>v. fst (Parse L (p\<lparr>Value := xs ! j\<rparr>)) = Ok v \<and> assignable v t"
    and "Parse L (p\<lparr>Value := xs ! k\<rparr>) = (Err e, x')"
  shows "Parse L p =
           (Err e, VSlice t (map (transformed L p) (take k xs) @ x' # drop (Suc k) xs))
       \<and> (\<forall>j < k. fst (Parse L (p\<lparr>Value := xs ! j\<rparr>)) = Ok (transformed L p (xs ! j)))"
proof -
  have "ParseElems L p (VSlice t xs) 0 =
          (Err e, VSlice t (map (transformed L p) (take k xs) @ x' # drop (Suc k) xs))"
    using ParseElems_slice_err [of 0 k xs L p t e x'] assms(2-4) by simp
  moreover have "fst (Parse L (p\<lparr>Value := xs ! j\<rparr>)) = Ok (transformed L p (xs ! j))"
    if "j < k" for j
  proof -
    from that assms(3) obtain v where "fst (Parse L (p\<lparr>Value := xs ! j\<rparr>)) = Ok v"
      by blast
    then show ?thesis by (simp add: transformed_def)
  qed
  ultimately show ?thesis using assms(1) by (simp add: Parse_slice)
qed

theorem slice_error_partial_witness:
  "Parse sample_externals
     \<lparr>Attribute = ''size'',
      Value = VSlice TInterface [VString ''1'', VString ''2'', VString ''abc'', VString ''2''],
      Name = ''FORMAT'', Args = [''KB'']\<rparr>
     = (Err (NumError ''abc''),
        VSlice TInterface
          [VFloat64 (Finite 1024), VFloat64 (Finite 2048), VString ''abc'', VString ''2''])"
  using slice_error_partial [of
      "\<lparr>Attribute = ''size'',
        Value = VSlice TInterface [VString ''1'', VString ''2'', VString ''abc'', VString ''2''],
        Name = ''FORMAT'', Args = [''KB'']\<rparr>"
      TInterface "[VString ''1'', VString ''2'', VString ''abc'', VString ''2'']" 2
      sample_externals "NumError ''abc''" "VString ''abc''"]
  by (simp add: transformed_def Parse_scalar scalar_def assignable_def less_Suc_eq
      pFormat_size pFormat_def pFormatSize_def sample_externals_def numeral_2_eq_2
      to_upper_char_def max_float64_def)

text \<open>
  Claim C2 says that every map request returns the map of the transformed keys. The
  result map has the type of the input map, and \<^verbatim>\<open>SetMapIndex\<close> stores \<^verbatim>\<open>true\<close> in it:
  on \<^verbatim>\<open>map[string]int{"a": 1}\<close> under \<^verbatim>\<open>UPPER\<close> the call panics, because a \<^verbatim>\<open>bool\<close> is
  not assignable to \<^verbatim>\<open>int\<close>. And a key whose transformation fails makes the whole call
  fail: with the unknown modifier \<^verbatim>\<open>FOO\<close> the call returns an error and no map.
\<close>

theorem map_keys_counterexample:
  "Parse sample_externals
     \<lparr>Attribute = ''name'', Value = VMap TString TInt [(VString ''a'', VInt 1)],
      Name = ''UPPER'', Args = []\<rparr>
     = (Panic ReflectSetMapIndex, VMap TString TInt [(VString ''a'', VInt 1)])
   \<and> Parse sample_externals
     \<lparr>Attribute = ''name'', Value = VMap TString TBool [(VString ''a'', VBool True)],
      Name = ''FOO'', Args = []\<rparr>
     = (Err (ErrNotImplemented ''FOO'' ''name''), VMap TString TBool [(VString ''a'', VBool True)])"
  by (simp add: Parse_map Parse_scalar scalar_def assignable_def
      to_upper_char_def upper_def ascii_def)

text \<open>
  Claim C2, amended. For a map whose element type accepts a \<^verbatim>\<open>bool\<close>: if the
  transformation of every key succeeds with a value assignable to the key type, the
  call returns a new map (the input map is as it was) whose entries are exactly the
  pairs of a transformed key and \<^verbatim>\<open>true\<close>, one entry for each transformed key; the
  recursive call has the key, not the value stored under it, as its \<^verbatim>\<open>Value\<close>.
\<close>

theorem map_keys_to_true:
  assumes "Value p = VMap kt et kvs" and "assignable (VBool True) et"
    and "\<forall>k \<in> set (map fst kvs). \<exists>v. fst (Parse L (p\<lparr>Value := k\<rparr>)) = Ok v \<and> assignable v kt"
  shows "\<exists>res. Parse L p = (Ok (VMap kt et res), VMap kt et kvs)
             \<and> set res = (\<lambda>k. (transformed L p k, VBool True)) ` set (map fst kvs)
             \<and> distinct_keys res
             \<and> (\<forall>k \<in> set (map fst kvs).
                   fst (Parse L (p\<lparr>Value := k\<rparr>)) = Ok (transformed L p k))"
proof -
  let ?res = "foldl (\<lambda>m k. assign m (transformed L p k) (VBool True)) [] (map fst kvs)"
  have "ParseKeys L p (VMap kt et []) (map fst kvs) = Ok (VMap kt et ?res)"
    using assms(2,3) by (rule ParseKeys_ok)
  then have "Parse L p = (Ok (VMap kt et ?res), VMap kt et kvs)"
    using assms(1) by (simp add: Parse_map)
  moreover have "set ?res = (\<lambda>k. (transformed L p k, VBool True)) ` set (map fst kvs)"
    and "distinct_keys ?res"
    using foldl_assign [of "[]" "VBool True" "transformed L p" "map fst kvs"] by simp_all
  moreover have "\<forall>k \<in> set (map fst kvs).
      fst (Parse L (p\<lparr>Value := k\<rparr>)) = Ok (transformed L p k)"
    using assms(3) by (auto simp: transformed_def)
  ultimately show ?thesis by blast
qed

theorem map_keys_to_true_witness:
  "\<exists>res. Parse sample_externals
       \<lparr>Attribute = ''name'',
        Value = VMap TString TBool [(VString ''a'', VBool False), (VString ''b'', VBool False)],
        Name = ''UPPER'', Args = []\<rparr>
       = (Ok (VMap TString TBool res),
          VMap TString TBool [(VString ''a'', VBool False), (VString ''b'', VBool False)])
     \<and> set res = {(VString ''A'', VBool True), (VString ''B'', VBool True)}
     \<and> distinct_keys res"
  using map_keys_to_true [of
      "\<lparr>Attribute = ''name'',
        Value = VMap TString TBool [(VString ''a'', VBool False), (VString ''b'', VBool False)],
        Name = ''UPPER'', Args = []\<rparr>"
      TString TBool "[(VString ''a'', VBool False), (VString ''b'', VBool False)]"
      sample_externals]
  by (simp add: transformed_def Parse_scalar scalar_def assignable_def
      to_upper_char_def upper_def ascii_def)

end
